theory Spec2Isabelle
  imports Main
begin

section \<open>The evaluator framework of libraries/chain/include/graphene/chain/evaluator.hpp\<close>

text \<open>
  The header declares \<^verbatim>\<open>generic_evaluator\<close> (the fee fields and the fee helpers, whose
  bodies live in a translation unit that is not part of the sources at hand), the dispatch
  wrapper \<^verbatim>\<open>op_evaluator_impl<T>\<close> and the template \<^verbatim>\<open>evaluator<DerivedEvaluator>\<close>
  with the bodies of \<^verbatim>\<open>evaluate\<close> and \<^verbatim>\<open>apply\<close>.

  Amounts (\<^verbatim>\<open>share_type\<close>) and identifiers are declared in headers outside this file; amounts
  are integers of the smallest unit, identifiers are natural numbers.
\<close>

subsection \<open>Data\<close>

type_synonym share_type = int
type_synonym account_uid_type = nat
type_synonym asset_aid_type = nat

record asset =
  amount :: share_type
  asset_id :: asset_aid_type

text \<open>Unary minus on an asset negates the amount and keeps the asset.\<close>

definition asset_neg :: "asset \<Rightarrow> asset" where
  "asset_neg a = a\<lparr>amount := - amount a\<rparr>"

text \<open>
  An operation is a tagged union; every variant carries a fee payer and a declared fee.
  \<open>which\<close> is the runtime tag, \<open>body\<close> the rest of the variant.
\<close>

record 'p operation =
  which :: nat
  fee_payer_uid :: account_uid_type
  fee :: asset
  body :: 'p

record object_id_type =
  is_relative :: bool
  instance_no :: nat

text \<open>
  The transaction evaluation state. The header reads \<^verbatim>\<open>skip_fee_schedule_check\<close> from it.
  Modelled from the spec: the list of the objects created so far in the transaction, in order
  of creation (the declaration of the class is not in the sources at hand).
\<close>

record transaction_evaluation_state =
  skip_fee_schedule_check :: bool
  created_objects :: "object_id_type list"

datatype error =
    insufficient_fee
  | object_resolution_failure
  | insufficient_funds
  | invalid_fee
  | insufficient_fee_pool
  | wrong_operation_type
  | contract_violation
  | operation_failure nat

text \<open>
  The data members of \<^verbatim>\<open>generic_evaluator\<close>. Pointers to ledger objects are the keys of the
  objects, \<open>None\<close> for \<^verbatim>\<open>nullptr\<close>; \<^verbatim>\<open>trx_state\<close> is \<open>None\<close> until \<^verbatim>\<open>start_evaluate\<close> has
  stored it. A derived evaluator adds members of its own: it is an extension of this record.
\<close>

record generic_evaluator =
  fee_from_account :: asset
  core_fee_paid :: share_type
  total_fee_paid :: share_type
  from_balance :: share_type
  from_prepaid :: share_type
  from_csaf :: share_type
  fee_paying_account :: "account_uid_type option"
  fee_paying_account_statistics :: "account_uid_type option"
  fee_asset :: "asset_aid_type option"
  fee_asset_dyn_data :: "asset_aid_type option"
  trx_state :: "transaction_evaluation_state option"

text \<open>
  What a member function works on: the ledger behind \<^verbatim>\<open>db()\<close> (class \<^verbatim>\<open>database\<close> is only
  forward-declared in the header, so its type is left open) and the evaluator object itself.
\<close>

record ('d, 'x) world =
  ledger :: 'd
  self :: "'x generic_evaluator_scheme"

subsection \<open>Member functions as state transformers that may throw\<close>

text \<open>
  A thrown exception ends the call with \<open>Inl\<close>; the state reached so far is kept, since
  rolling back is the caller's business.
\<close>

type_synonym ('a, 'w) eff = "'w \<Rightarrow> (error + 'a) \<times> 'w"

definition ret :: "'a \<Rightarrow> ('a, 'w) eff" where
  "ret a w = (Inr a, w)"

definition throw :: "error \<Rightarrow> ('a, 'w) eff" where
  "throw e w = (Inl e, w)"

definition bnd :: "('a, 'w) eff \<Rightarrow> ('a \<Rightarrow> ('b, 'w) eff) \<Rightarrow> ('b, 'w) eff" where
  "bnd m f w = (case m w of (Inl e, w') \<Rightarrow> (Inl e, w') | (Inr a, w') \<Rightarrow> f a w')"

text \<open>\<^verbatim>\<open>GRAPHENE_ASSERT(cond, exc, ...)\<close>: throws \<open>exc\<close> unless the condition holds now.\<close>

definition graphene_assert :: "('w \<Rightarrow> bool) \<Rightarrow> error \<Rightarrow> (unit, 'w) eff" where
  "graphene_assert cond e w = (if cond w then (Inr (), w) else (Inl e, w))"

text \<open>
  \<^verbatim>\<open>o.get<operation_type>()\<close>: the variant hands out its content only under the tag asked for.
\<close>

definition get_op :: "nat \<Rightarrow> 'p operation \<Rightarrow> ('p operation, 'w) eff" where
  "get_op tag o_v = (if which o_v = tag then ret o_v else throw wrong_operation_type)"

text \<open>
  The functions that the header declares or calls and does not define: the fee helpers of
  \<^verbatim>\<open>generic_evaluator\<close>, the virtual \<^verbatim>\<open>pay_fee\<close>, and the two functions every derived
  evaluator supplies. \<open>operation_type\<close> is the tag that \<^verbatim>\<open>get_type()\<close> returns.
\<close>

record ('d, 'x, 'p, 'r) evaluator_ops =
  operation_type :: nat
  prepare_fee_impl :: "account_uid_type \<Rightarrow> asset \<Rightarrow> (unit, ('d, 'x) world) eff"
  calculate_fee_pair_for_operation :: "'p operation \<Rightarrow> ('d, 'x) world \<Rightarrow> share_type \<times> share_type"
  do_evaluate :: "'p operation \<Rightarrow> ('r, ('d, 'x) world) eff"
  convert_fee_impl :: "(unit, ('d, 'x) world) eff"
  pay_fee_impl :: "(unit, ('d, 'x) world) eff"
  do_apply :: "'p operation \<Rightarrow> ('r, ('d, 'x) world) eff"
  db_adjust_balance_impl :: "account_uid_type \<Rightarrow> asset \<Rightarrow> (unit, ('d, 'x) world) eff"
  process_fee_options_impl :: "(unit, ('d, 'x) world) eff"

subsection \<open>\<^verbatim>\<open>evaluator<DerivedEvaluator>::evaluate\<close> and \<^verbatim>\<open>::apply\<close>\<close>

text \<open>The block guarded by \<^verbatim>\<open>!trx_state->skip_fee_schedule_check\<close>: the two assertions.\<close>

definition fee_schedule_check :: "share_type \<times> share_type \<Rightarrow> (unit, ('d, 'x) world) eff" where
  "fee_schedule_check required_fee_pair =
     bnd (graphene_assert (\<lambda>w. total_fee_paid (self w) \<ge> fst required_fee_pair) insufficient_fee)
       (\<lambda>_. graphene_assert
          (\<lambda>w. from_balance (self w) + from_prepaid (self w) \<ge> snd required_fee_pair)
          insufficient_fee)"

definition evaluator_evaluate ::
  "('d, 'x, 'p, 'r) evaluator_ops \<Rightarrow> 'p operation \<Rightarrow> ('r, ('d, 'x) world) eff" where
  "evaluator_evaluate E o_v =
     bnd (get_op (operation_type E) o_v) (\<lambda>op.
     bnd (prepare_fee_impl E (fee_payer_uid op) (fee op)) (\<lambda>_.
     bnd (\<lambda>w. case trx_state (self w) of
                 None \<Rightarrow> (Inl contract_violation, w)
               | Some st \<Rightarrow>
                   if \<not> skip_fee_schedule_check st
                   then fee_schedule_check (calculate_fee_pair_for_operation E op w) w
                   else (Inr (), w)) (\<lambda>_.
     do_evaluate E op)))"

definition evaluator_apply ::
  "('d, 'x, 'p, 'r) evaluator_ops \<Rightarrow> 'p operation \<Rightarrow> ('r, ('d, 'x) world) eff" where
  "evaluator_apply E o_v =
     bnd (get_op (operation_type E) o_v) (\<lambda>op.
     bnd (convert_fee_impl E) (\<lambda>_.
     bnd (pay_fee_impl E) (\<lambda>_.
     bnd (do_apply E op) (\<lambda>result.
     bnd (\<lambda>w. if amount (fee_from_account (self w)) > 0
               then db_adjust_balance_impl E (fee_payer_uid op)
                      (asset_neg (fee_from_account (self w))) w
               else (Inr (), w)) (\<lambda>_.
     bnd (process_fee_options_impl E) (\<lambda>_.
     ret result))))))"

subsection \<open>\<^verbatim>\<open>op_evaluator_impl<T>::evaluate\<close> and \<^verbatim>\<open>generic_evaluator::start_evaluate\<close>\<close>

text \<open>
  Modelled from the spec: \<^verbatim>\<open>start_evaluate\<close> is declared in the header and defined elsewhere.
  It stores the evaluation context, invokes the virtual \<^verbatim>\<open>evaluate(op)\<close> and, if \<open>apply\<close> is
  true, the virtual \<^verbatim>\<open>apply(op)\<close>, whose result it then returns. The two virtual functions are
  arguments.
\<close>

definition start_evaluate ::
  "('o \<Rightarrow> ('r, ('d, 'x) world) eff) \<Rightarrow> ('o \<Rightarrow> ('r, ('d, 'x) world) eff) \<Rightarrow>
   transaction_evaluation_state \<Rightarrow> 'o \<Rightarrow> bool \<Rightarrow> ('r, ('d, 'x) world) eff" where
  "start_evaluate evaluate_v apply_v eval_state o_v apply_flag =
     bnd (\<lambda>w. (Inr (), w\<lparr>self := (self w)\<lparr>trx_state := Some eval_state\<rparr>\<rparr>)) (\<lambda>_.
     bnd (evaluate_v o_v) (\<lambda>result.
     if apply_flag then apply_v o_v else ret result))"

text \<open>
  \<^verbatim>\<open>T eval;\<close> default-constructs the evaluator: amounts are zero, the object pointers are
  \<^verbatim>\<open>nullptr\<close> by their initialisers, \<^verbatim>\<open>trx_state\<close> is not set. \<open>x\<close> is the derived part.
\<close>

definition fresh_evaluator :: "'x \<Rightarrow> 'x generic_evaluator_scheme" where
  "fresh_evaluator x =
     \<lparr>fee_from_account = \<lparr>amount = 0, asset_id = 0\<rparr>, core_fee_paid = 0, total_fee_paid = 0,
      from_balance = 0, from_prepaid = 0, from_csaf = 0,
      fee_paying_account = None, fee_paying_account_statistics = None,
      fee_asset = None, fee_asset_dyn_data = None, trx_state = None, \<dots> = x\<rparr>"

text \<open>
  \<^verbatim>\<open>evaluate(eval_state, op, bool apply = true)\<close> of \<^verbatim>\<open>op_evaluator_impl<T>\<close>: the third
  argument may be left out (\<open>None\<close>), and the declaration's default then stands in for it.
  The evaluator lives for this call only; what remains is the result and the ledger.
\<close>

definition op_evaluator_impl_evaluate ::
  "('d, 'x, 'p, 'r) evaluator_ops \<Rightarrow> 'x \<Rightarrow> transaction_evaluation_state \<Rightarrow> 'p operation \<Rightarrow>
   bool option \<Rightarrow> 'd \<Rightarrow> (error + 'r) \<times> 'd" where
  "op_evaluator_impl_evaluate T x eval_state op apply_arg d =
     (let apply_flag = (case apply_arg of None \<Rightarrow> True | Some b \<Rightarrow> b);
          r = start_evaluate (evaluator_evaluate T) (evaluator_apply T) eval_state op apply_flag
                \<lparr>ledger = d, self = fresh_evaluator x\<rparr>
      in (fst r, ledger (snd r)))"

subsection \<open>The ledger and the fee helpers, from the specification\<close>

text \<open>
  Modelled from the spec: the ledger objects the fee protocol touches (their classes are only
  named in the header). Accounts are looked up by uid or by object id. An account's
  statistics object holds the prepaid, csaf and pending-fee counters; an asset's dynamic data
  holds its exchange pool, with a core side and an asset side; balances are kept per account
  and asset.
\<close>

record account_statistics_object =
  prepaid :: share_type
  csaf :: share_type
  pending_fees :: share_type

record asset_dynamic_data_object =
  pool_core_side :: share_type
  pool_asset_side :: share_type

record database =
  accounts :: "account_uid_type set"
  account_uid_by_id :: "nat \<rightharpoonup> account_uid_type"
  account_statistics :: "account_uid_type \<rightharpoonup> account_statistics_object"
  assets :: "asset_aid_type set"
  asset_dynamic_data :: "asset_aid_type \<rightharpoonup> asset_dynamic_data_object"
  balances :: "account_uid_type \<times> asset_aid_type \<Rightarrow> share_type"

definition core_asset_aid :: asset_aid_type where
  "core_asset_aid = 0"

text \<open>
  Modelled from the spec: \<^verbatim>\<open>fee_type\<close>, the fee already resolved (section 4.2, last
  paragraph); its declaration is not in the sources at hand. It is the declared fee together
  with the contribution of each funding source, in native units.
\<close>

record fee_type =
  total :: asset
  paid_from_balance :: share_type
  paid_from_prepaid :: share_type
  paid_from_csaf :: share_type

text \<open>
  Modelled from the spec: \<^verbatim>\<open>prepare_fee(account_uid, const fee_type&)\<close>, section 4.2; the
  bodies of the five overloads are not in the sources at hand. This one applies a resolved fee
  as it is given. It resolves the payer's account and statistics object and the fee's asset
  and dynamic data (steps 1 and 2), verifies that the fee is valid (the header's comment): no
  negative amount, the contributions adding up to the native value of the fee (step 3, the
  pool's quote being the argument \<open>quote\<close>; section 3, the invariant of the fee fields), and
  checks that the pool and the payer can afford it. The csaf and prepaid counters are credits
  in native units; a fee declared in another asset is paid whole from the payer's balance of
  that asset and converted by the pool (section 4.4). \<^verbatim>\<open>fee_from_account\<close> is what is to be
  taken off the payer's balance, in the fee's asset (section 3, step 5). Nothing is written to
  the ledger, and on failure nothing is recorded.
\<close>

definition prepare_fee_resolved ::
  "(database \<Rightarrow> asset \<Rightarrow> share_type) \<Rightarrow> account_uid_type \<Rightarrow> fee_type \<Rightarrow>
   (unit, (database, 'x) world) eff" where
  "prepare_fee_resolved quote account_uid ft w =
     (let d = ledger w; fee_v = total ft in
      if account_uid \<notin> accounts d then (Inl object_resolution_failure, w) else
      case account_statistics d account_uid of
        None \<Rightarrow> (Inl object_resolution_failure, w)
      | Some stats \<Rightarrow>
      if asset_id fee_v \<notin> assets d then (Inl object_resolution_failure, w) else
      case asset_dynamic_data d (asset_id fee_v) of
        None \<Rightarrow> (Inl object_resolution_failure, w)
      | Some dyn \<Rightarrow>
      let native = (asset_id fee_v = core_asset_aid);
          core = (if native then amount fee_v else quote d fee_v);
          from_account = (if native
                          then \<lparr>amount = paid_from_balance ft, asset_id = core_asset_aid\<rparr>
                          else fee_v) in
      if amount fee_v < 0 \<or> paid_from_balance ft < 0 \<or> paid_from_prepaid ft < 0
         \<or> paid_from_csaf ft < 0
         \<or> paid_from_balance ft + paid_from_prepaid ft + paid_from_csaf ft \<noteq> core
         \<or> (\<not> native \<and> paid_from_balance ft \<noteq> core)
      then (Inl invalid_fee, w) else
      if \<not> native \<and> pool_core_side dyn < core then (Inl insufficient_fee_pool, w) else
      if csaf stats < paid_from_csaf ft \<or> prepaid stats < paid_from_prepaid ft
         \<or> balances d (account_uid, asset_id fee_v) < amount from_account
      then (Inl insufficient_funds, w) else
      (Inr (), w\<lparr>self := (self w)\<lparr>
         fee_from_account := from_account,
         core_fee_paid := core,
         total_fee_paid := core,
         from_balance := paid_from_balance ft,
         from_prepaid := paid_from_prepaid ft,
         from_csaf := paid_from_csaf ft,
         fee_paying_account := Some account_uid,
         fee_paying_account_statistics := Some account_uid,
         fee_asset := Some (asset_id fee_v),
         fee_asset_dyn_data := Some (asset_id fee_v)\<rparr>\<rparr>))"

text \<open>
  Modelled from the spec: step 4 of section 4.2, the resolution of a declared fee. A native fee
  is drawn csaf first, then prepaid, then balance, each up to what is there and what is still
  needed; a fee in another asset is drawn from the balance.
\<close>

definition resolve_fee ::
  "(database \<Rightarrow> asset \<Rightarrow> share_type) \<Rightarrow> database \<Rightarrow> account_uid_type \<Rightarrow> asset \<Rightarrow> fee_type" where
  "resolve_fee quote d account_uid fee_v =
     (if asset_id fee_v = core_asset_aid
      then (case account_statistics d account_uid of
              None \<Rightarrow> \<lparr>total = fee_v, paid_from_balance = amount fee_v,
                        paid_from_prepaid = 0, paid_from_csaf = 0\<rparr>
            | Some stats \<Rightarrow>
                let c = min (csaf stats) (amount fee_v);
                    p = min (prepaid stats) (amount fee_v - c)
                in \<lparr>total = fee_v, paid_from_balance = amount fee_v - c - p,
                    paid_from_prepaid = p, paid_from_csaf = c\<rparr>)
      else \<lparr>total = fee_v, paid_from_balance = quote d fee_v,
            paid_from_prepaid = 0, paid_from_csaf = 0\<rparr>)"

text \<open>
  Modelled from the spec: the other four overloads. \<^verbatim>\<open>prepare_fee(account_uid, asset)\<close>, the
  one \<^verbatim>\<open>evaluate\<close> calls, resolves the declared fee and applies it;
  \<^verbatim>\<open>prepare_fee(account_id, asset)\<close> finds the payer by its object id first; the two without
  a payer are for a payer that an earlier call has resolved.
\<close>

definition prepare_fee ::
  "(database \<Rightarrow> asset \<Rightarrow> share_type) \<Rightarrow> account_uid_type \<Rightarrow> asset \<Rightarrow>
   (unit, (database, 'x) world) eff" where
  "prepare_fee quote account_uid fee_v w =
     prepare_fee_resolved quote account_uid (resolve_fee quote (ledger w) account_uid fee_v) w"

definition prepare_fee_by_id ::
  "(database \<Rightarrow> asset \<Rightarrow> share_type) \<Rightarrow> nat \<Rightarrow> asset \<Rightarrow> (unit, (database, 'x) world) eff" where
  "prepare_fee_by_id quote account_id fee_v w =
     (case account_uid_by_id (ledger w) account_id of
        None \<Rightarrow> (Inl object_resolution_failure, w)
      | Some account_uid \<Rightarrow> prepare_fee quote account_uid fee_v w)"

definition prepare_fee_payer_known ::
  "(database \<Rightarrow> asset \<Rightarrow> share_type) \<Rightarrow> asset \<Rightarrow> (unit, (database, 'x) world) eff" where
  "prepare_fee_payer_known quote fee_v w =
     (case fee_paying_account (self w) of
        None \<Rightarrow> (Inl contract_violation, w)
      | Some account_uid \<Rightarrow> prepare_fee quote account_uid fee_v w)"

definition prepare_fee_resolved_payer_known ::
  "(database \<Rightarrow> asset \<Rightarrow> share_type) \<Rightarrow> fee_type \<Rightarrow> (unit, (database, 'x) world) eff" where
  "prepare_fee_resolved_payer_known quote ft w =
     (case fee_paying_account (self w) of
        None \<Rightarrow> (Inl contract_violation, w)
      | Some account_uid \<Rightarrow> prepare_fee_resolved quote account_uid ft w)"

text \<open>
  Modelled from the spec: \<^verbatim>\<open>convert_fee()\<close>, section 4.4. For a fee in another asset than the
  native one it debits \<^verbatim>\<open>core_fee_paid\<close> from the pool's core side and credits the amount of
  \<^verbatim>\<open>fee_from_account\<close> to its asset side; a native fee needs no conversion. Without a
  preceding \<^verbatim>\<open>prepare_fee\<close> the contract is violated.
\<close>

definition convert_fee :: "(unit, (database, 'x) world) eff" where
  "convert_fee w =
     (case (fee_asset (self w), fee_asset_dyn_data (self w)) of
        (Some a, Some k) \<Rightarrow>
          if a = core_asset_aid then (Inr (), w)
          else (case asset_dynamic_data (ledger w) k of
                  None \<Rightarrow> (Inl contract_violation, w)
                | Some dyn \<Rightarrow>
                    (Inr (), w\<lparr>ledger := (ledger w)\<lparr>asset_dynamic_data :=
                       (asset_dynamic_data (ledger w))(k \<mapsto> dyn\<lparr>
                          pool_core_side := pool_core_side dyn - core_fee_paid (self w),
                          pool_asset_side := pool_asset_side dyn
                             + amount (fee_from_account (self w))\<rparr>)\<rparr>\<rparr>))
      | _ \<Rightarrow> (Inl contract_violation, w))"

text \<open>
  Modelled from the spec: the default \<^verbatim>\<open>pay_fee()\<close>, section 4.4: it adds \<^verbatim>\<open>core_fee_paid\<close> to
  the pending-fee counter of the payer's statistics object.
\<close>

definition pay_fee :: "(unit, (database, 'x) world) eff" where
  "pay_fee w =
     (case fee_paying_account_statistics (self w) of
        None \<Rightarrow> (Inl contract_violation, w)
      | Some u \<Rightarrow>
          (case account_statistics (ledger w) u of
             None \<Rightarrow> (Inl contract_violation, w)
           | Some s \<Rightarrow>
               (Inr (), w\<lparr>ledger := (ledger w)\<lparr>account_statistics :=
                  (account_statistics (ledger w))(u \<mapsto> s\<lparr>
                     pending_fees := pending_fees s + core_fee_paid (self w)\<rparr>)\<rparr>\<rparr>)))"

text \<open>
  Modelled from the spec: \<^verbatim>\<open>process_fee_options()\<close>, section 4.4: it takes \<^verbatim>\<open>from_csaf\<close> and
  \<^verbatim>\<open>from_prepaid\<close> off the payer's csaf and prepaid counters.
\<close>

definition process_fee_options :: "(unit, (database, 'x) world) eff" where
  "process_fee_options w =
     (case fee_paying_account_statistics (self w) of
        None \<Rightarrow> (Inl contract_violation, w)
      | Some u \<Rightarrow>
          (case account_statistics (ledger w) u of
             None \<Rightarrow> (Inl contract_violation, w)
           | Some s \<Rightarrow>
               (Inr (), w\<lparr>ledger := (ledger w)\<lparr>account_statistics :=
                  (account_statistics (ledger w))(u \<mapsto> s\<lparr>
                     csaf := csaf s - from_csaf (self w),
                     prepaid := prepaid s - from_prepaid (self w)\<rparr>)\<rparr>\<rparr>)))"

text \<open>
  Modelled from the spec: \<^verbatim>\<open>db_adjust_balance(fee_payer, delta)\<close>, the ledger accessor's
  balance adjustment by a signed delta (section 6).
\<close>

definition db_adjust_balance ::
  "account_uid_type \<Rightarrow> asset \<Rightarrow> (unit, (database, 'x) world) eff" where
  "db_adjust_balance fee_payer delta w =
     (Inr (), w\<lparr>ledger := (ledger w)\<lparr>balances :=
        (balances (ledger w))((fee_payer, asset_id delta) :=
           balances (ledger w) (fee_payer, asset_id delta) + amount delta)\<rparr>\<rparr>)"

text \<open>
  An evaluator over this ledger: the fee helpers above, with the fee schedule, the pool's quote
  and the two functions of the operation kind left open.
\<close>

definition ledger_evaluator ::
  "nat \<Rightarrow> (database \<Rightarrow> asset \<Rightarrow> share_type) \<Rightarrow>
   ('p operation \<Rightarrow> (database, 'x) world \<Rightarrow> share_type \<times> share_type) \<Rightarrow>
   ('p operation \<Rightarrow> ('r, (database, 'x) world) eff) \<Rightarrow>
   ('p operation \<Rightarrow> ('r, (database, 'x) world) eff) \<Rightarrow>
   (database, 'x, 'p, 'r) evaluator_ops" where
  "ledger_evaluator tag quote fee_pair do_evaluate_v do_apply_v =
     \<lparr>operation_type = tag,
      prepare_fee_impl = prepare_fee quote,
      calculate_fee_pair_for_operation = fee_pair,
      do_evaluate = do_evaluate_v,
      convert_fee_impl = convert_fee,
      pay_fee_impl = pay_fee,
      do_apply = do_apply_v,
      db_adjust_balance_impl = db_adjust_balance,
      process_fee_options_impl = process_fee_options\<rparr>"

text \<open>
  Modelled from the spec: \<^verbatim>\<open>get_relative_id(rel_id)\<close>, section 4.3; its body is not in the
  sources at hand. A reference that is not relative is returned as it is; a relative one is
  the index of an object created earlier in the transaction, and is out of range from the
  number of objects created so far.
\<close>

definition get_relative_id :: "object_id_type \<Rightarrow> (object_id_type, ('d, 'x) world) eff" where
  "get_relative_id rel_id w =
     (if \<not> is_relative rel_id then (Inr rel_id, w)
      else case trx_state (self w) of
             None \<Rightarrow> (Inl contract_violation, w)
           | Some st \<Rightarrow>
               if instance_no rel_id < length (created_objects st)
               then (Inr (created_objects st ! instance_no rel_id), w)
               else (Inl object_resolution_failure, w))"

subsection \<open>A small ledger, some operations and three evaluators\<close>

text \<open>
  Account 1 holds 100 native units and 40 units of asset 7; account 2 holds nothing but 50 of
  csaf; account 3 holds 100 native units, 3 of prepaid and 4 of csaf; their object ids are 11,
  12 and 13. Asset 0 is the native
  asset; the pool of asset 7 quotes two units of the asset for one native unit. The operations
  declare a fee in native units (10 for the payers 1 and 2, 60 for payer 2, 3 for payer 1) or
  20 units of asset 7 (payer 1).
\<close>

definition half_quote :: "database \<Rightarrow> asset \<Rightarrow> share_type" where
  "half_quote d a = amount a div 2"

definition demo_ledger :: database where
  "demo_ledger =
     \<lparr>accounts = {1, 2, 3},
      account_uid_by_id = [11 \<mapsto> 1, 12 \<mapsto> 2, 13 \<mapsto> 3],
      account_statistics =
        [1 \<mapsto> \<lparr>prepaid = 0, csaf = 0, pending_fees = 0\<rparr>,
         2 \<mapsto> \<lparr>prepaid = 0, csaf = 50, pending_fees = 0\<rparr>,
         3 \<mapsto> \<lparr>prepaid = 3, csaf = 4, pending_fees = 0\<rparr>],
      assets = {0, 7},
      asset_dynamic_data =
        [0 \<mapsto> \<lparr>pool_core_side = 0, pool_asset_side = 0\<rparr>,
         7 \<mapsto> \<lparr>pool_core_side = 1000, pool_asset_side = 0\<rparr>],
      balances = (\<lambda>_. 0)((1, 0) := 100, (1, 7) := 40, (3, 0) := 100)\<rparr>"

definition checking_state :: transaction_evaluation_state where
  "checking_state = \<lparr>skip_fee_schedule_check = False, created_objects = []\<rparr>"

definition skipping_state :: transaction_evaluation_state where
  "skipping_state = \<lparr>skip_fee_schedule_check = True, created_objects = []\<rparr>"

definition demo_world :: "transaction_evaluation_state \<Rightarrow> (database, unit) world" where
  "demo_world st = \<lparr>ledger = demo_ledger, self = (fresh_evaluator ())\<lparr>trx_state := Some st\<rparr>\<rparr>"

definition native_fee_op :: "unit operation" where
  "native_fee_op = \<lparr>which = 0, fee_payer_uid = 1, fee = \<lparr>amount = 10, asset_id = 0\<rparr>, body = ()\<rparr>"

definition csaf_fee_op :: "unit operation" where
  "csaf_fee_op = \<lparr>which = 0, fee_payer_uid = 2, fee = \<lparr>amount = 10, asset_id = 0\<rparr>, body = ()\<rparr>"


definition poor_payer_op :: "unit operation" where
  "poor_payer_op = \<lparr>which = 0, fee_payer_uid = 2, fee = \<lparr>amount = 60, asset_id = 0\<rparr>, body = ()\<rparr>"

definition low_fee_op :: "unit operation" where
  "low_fee_op = \<lparr>which = 0, fee_payer_uid = 1, fee = \<lparr>amount = 3, asset_id = 0\<rparr>, body = ()\<rparr>"

text \<open>A transaction in which three objects have been created so far.\<close>

definition three_created_state :: transaction_evaluation_state where
  "three_created_state =
     \<lparr>skip_fee_schedule_check = False,
      created_objects = [\<lparr>is_relative = False, instance_no = 41\<rparr>,
                         \<lparr>is_relative = False, instance_no = 42\<rparr>,
                         \<lparr>is_relative = False, instance_no = 43\<rparr>]\<rparr>"

text \<open>
  Three evaluators over the ledger: one whose operation kind checks and changes nothing, one
  whose \<^verbatim>\<open>do_evaluate\<close> fails, and one whose \<^verbatim>\<open>do_apply\<close> reports the payer's pending fees
  and balance as it finds them.
\<close>

definition plain_evaluator :: "(database, unit, unit, share_type \<times> share_type) evaluator_ops" where
  "plain_evaluator =
     ledger_evaluator 0 half_quote (\<lambda>_ _. (10, 5)) (\<lambda>_. ret (0, 0)) (\<lambda>_. ret (0, 0))"

definition failing_evaluator :: "(database, unit, unit, share_type \<times> share_type) evaluator_ops" where
  "failing_evaluator =
     ledger_evaluator 0 half_quote (\<lambda>_ _. (10, 10)) (\<lambda>_. throw (operation_failure 0)) (\<lambda>_. ret (0, 0))"

definition observe :: "unit operation \<Rightarrow> (share_type \<times> share_type, (database, unit) world) eff" where
  "observe op w =
     (Inr (case account_statistics (ledger w) (fee_payer_uid op) of
             None \<Rightarrow> 0 | Some s \<Rightarrow> pending_fees s,
           balances (ledger w) (fee_payer_uid op, asset_id (fee op))), w)"

definition observing_evaluator :: "(database, unit, unit, share_type \<times> share_type) evaluator_ops" where
  "observing_evaluator =
     ledger_evaluator 0 half_quote (\<lambda>_ _. (10, 10)) (\<lambda>_. ret (0, 0)) observe"

text \<open>
  Two operation kinds that write to the ledger themselves: one whose \<^verbatim>\<open>do_evaluate\<close> takes
  one native unit off the payer's balance, and one whose \<^verbatim>\<open>do_apply\<close> adds 500 to the core
  side of the pool of asset 7.
\<close>

definition writing_evaluator :: "(database, unit, unit, share_type \<times> share_type) evaluator_ops" where
  "writing_evaluator =
     ledger_evaluator 0 half_quote (\<lambda>_ _. (10, 5))
       (\<lambda>op. bnd (db_adjust_balance (fee_payer_uid op) \<lparr>amount = - 1, asset_id = 0\<rparr>)
                (\<lambda>_. ret (0, 0)))
       (\<lambda>_. ret (0, 0))"



text \<open>A fee of 10 native units resolved by the payer: 8 from the balance, 2 from prepaid.\<close>

definition stated_fee :: fee_type where
  "stated_fee = \<lparr>total = \<lparr>amount = 10, asset_id = 0\<rparr>, paid_from_balance = 8,
                  paid_from_prepaid = 2, paid_from_csaf = 0\<rparr>"

text \<open>The evaluator of the first operation after a successful \<^verbatim>\<open>evaluate\<close>.\<close>

definition prepared_world :: "(database, unit) world" where
  "prepared_world = snd (evaluator_evaluate observing_evaluator native_fee_op (demo_world checking_state))"

section \<open>Properties\<close>

lemmas eff_defs = bnd_def ret_def throw_def graphene_assert_def get_op_def
lemmas demo_defs = half_quote_def demo_ledger_def checking_state_def demo_world_def
  native_fee_op_def csaf_fee_op_def plain_evaluator_def ledger_evaluator_def
  fresh_evaluator_def core_asset_aid_def
lemmas fee_defs = prepare_fee_def prepare_fee_resolved_def resolve_fee_def convert_fee_def
  pay_fee_def process_fee_options_def db_adjust_balance_def asset_neg_def

subsection \<open>The fee checks of \<^verbatim>\<open>evaluate\<close>\<close>

text \<open>
  C1, as the code has it. With the skip flag false and \<^verbatim>\<open>prepare_fee\<close> returned, \<^verbatim>\<open>evaluate\<close>
  throws \<^verbatim>\<open>insufficient_fee\<close> from its two assertions exactly when
  \<open>total_fee_paid < total_required\<close> or \<open>from_balance + from_prepaid < min_real_required\<close>,
  where the pair is the one \<^verbatim>\<open>calculate_fee_pair_for_operation\<close> returns; \<open>from_csaf\<close> does not
  count towards the second bound. When neither inequality holds the assertions pass and
  \<^verbatim>\<open>evaluate\<close> goes on to \<^verbatim>\<open>do_evaluate\<close>, whose outcome, a result or a failure of its own,
  is the outcome of \<^verbatim>\<open>evaluate\<close>.
\<close>

theorem evaluate_fee_checks:
  assumes "which o_v = operation_type E"
      and "prepare_fee_impl E (fee_payer_uid o_v) (fee o_v) w = (Inr (), w1)"
      and "trx_state (self w1) = Some st" and "\<not> skip_fee_schedule_check st"
      and "calculate_fee_pair_for_operation E o_v w1 = (total_required, min_real_required)"
  shows "evaluator_evaluate E o_v w =
           (if total_fee_paid (self w1) < total_required
               \<or> from_balance (self w1) + from_prepaid (self w1) < min_real_required
            then (Inl insufficient_fee, w1) else do_evaluate E o_v w1)"
  using assms by (simp add: evaluator_evaluate_def fee_schedule_check_def eff_defs not_le)

text \<open>
  Payer 2 covers the whole fee of 10 from csaf; the floor of 5 on the real fee is not met and
  the evaluation fails.
\<close>

theorem evaluate_fee_checks_witness:
  "fst (evaluator_evaluate plain_evaluator csaf_fee_op (demo_world checking_state))
     = Inl insufficient_fee
   \<and> total_fee_paid (self (snd (evaluator_evaluate plain_evaluator csaf_fee_op
         (demo_world checking_state)))) = 10
   \<and> from_csaf (self (snd (evaluator_evaluate plain_evaluator csaf_fee_op
         (demo_world checking_state)))) = 10"
  using evaluate_fee_checks [of csaf_fee_op plain_evaluator "demo_world checking_state"
      "snd (prepare_fee half_quote 2 \<lparr>amount = 10, asset_id = 0\<rparr> (demo_world checking_state))"
      checking_state 10 5]
  by (simp add: demo_defs fee_defs)

text \<open>
  C1 as it is stated fails: payer 1 pays the required 10 from the balance, both inequalities
  are satisfied, and \<^verbatim>\<open>evaluate\<close> fails all the same, in \<^verbatim>\<open>do_evaluate\<close>.
\<close>

theorem evaluate_fails_with_fee_paid:
  "fst (evaluator_evaluate failing_evaluator native_fee_op (demo_world checking_state))
     = Inl (operation_failure 0)
   \<and> calculate_fee_pair_for_operation failing_evaluator native_fee_op
       (snd (evaluator_evaluate failing_evaluator native_fee_op (demo_world checking_state)))
     = (10, 10)
   \<and> total_fee_paid (self (snd (evaluator_evaluate failing_evaluator native_fee_op
         (demo_world checking_state)))) = 10
   \<and> from_balance (self (snd (evaluator_evaluate failing_evaluator native_fee_op
         (demo_world checking_state)))) = 10
   \<and> from_prepaid (self (snd (evaluator_evaluate failing_evaluator native_fee_op
         (demo_world checking_state)))) = 0"
  by (simp add: evaluator_evaluate_def fee_schedule_check_def eff_defs failing_evaluator_def
      demo_defs fee_defs)

subsection \<open>The steps of \<^verbatim>\<open>apply\<close>\<close>

text \<open>
  C2. \<^verbatim>\<open>apply(op)\<close> runs \<^verbatim>\<open>convert_fee()\<close>, then \<^verbatim>\<open>pay_fee()\<close>, then \<^verbatim>\<open>do_apply(op)\<close>, then
  takes \<^verbatim>\<open>fee_from_account\<close> off the payer's balance if and only if its amount is positive,
  then runs \<^verbatim>\<open>process_fee_options()\<close>, each step on the state the step before has left, and
  returns the result of \<^verbatim>\<open>do_apply\<close>.
\<close>

theorem apply_sequence:
  assumes "which o_v = operation_type E"
    and "convert_fee_impl E w = (Inr (), w1)"
    and "pay_fee_impl E w1 = (Inr (), w2)"
    and "do_apply E o_v w2 = (Inr result, w3)"
    and "(if amount (fee_from_account (self w3)) > 0
          then db_adjust_balance_impl E (fee_payer_uid o_v)
                 (asset_neg (fee_from_account (self w3))) w3
          else (Inr (), w3)) = (Inr (), w4)"
    and "process_fee_options_impl E w4 = (Inr (), w5)"
  shows "evaluator_apply E o_v w = (Inr result, w5)"
  using assms by (simp add: evaluator_apply_def eff_defs)

text \<open>
  The \<^verbatim>\<open>do_apply\<close> of the observing evaluator returns the pending fees and the balance it
  finds: the fee of 10 is already pending, the balance is still 100, and it is 90 at the end.
\<close>

theorem apply_sequence_witness:
  "fst (evaluator_apply observing_evaluator native_fee_op prepared_world) = Inr (10, 100)
   \<and> balances (ledger (snd (evaluator_apply observing_evaluator native_fee_op prepared_world)))
       (1, 0) = 90"
  using apply_sequence [of native_fee_op observing_evaluator prepared_world
      "snd (convert_fee prepared_world)"
      "snd (pay_fee (snd (convert_fee prepared_world)))"
      "(10, 100)"
      "snd (observe native_fee_op (snd (pay_fee (snd (convert_fee prepared_world)))))"
      "snd (db_adjust_balance 1 \<lparr>amount = - 10, asset_id = 0\<rparr>
         (snd (observe native_fee_op (snd (pay_fee (snd (convert_fee prepared_world)))))))"
      "snd (process_fee_options (snd (db_adjust_balance 1 \<lparr>amount = - 10, asset_id = 0\<rparr>
         (snd (observe native_fee_op (snd (pay_fee (snd (convert_fee prepared_world)))))))))"]
  by (simp add: prepared_world_def evaluator_evaluate_def fee_schedule_check_def eff_defs
      observing_evaluator_def observe_def demo_defs fee_defs)

subsection \<open>The ledger of \<^verbatim>\<open>prepare_fee\<close>\<close>

text \<open>
  What is recorded is what is paid: payer 3, with 4 of csaf, 3 of prepaid and a balance of 100,
  pays a fee of 10 once, and is left with no csaf, no prepaid and a balance of 97.
\<close>

lemma payer_three_pays_once:
  "account_statistics (snd (op_evaluator_impl_evaluate plain_evaluator () checking_state
       \<lparr>which = 0, fee_payer_uid = 3, fee = \<lparr>amount = 10, asset_id = 0\<rparr>, body = ()\<rparr>
       (Some True) demo_ledger)) 3 = Some \<lparr>prepaid = 0, csaf = 0, pending_fees = 10\<rparr>
   \<and> balances (snd (op_evaluator_impl_evaluate plain_evaluator () checking_state
       \<lparr>which = 0, fee_payer_uid = 3, fee = \<lparr>amount = 10, asset_id = 0\<rparr>, body = ()\<rparr>
       (Some True) demo_ledger)) (3, 0) = 97"
  by (simp add: op_evaluator_impl_evaluate_def start_evaluate_def evaluator_evaluate_def
      evaluator_apply_def fee_schedule_check_def eff_defs demo_defs fee_defs)

lemma prepare_fee_resolved_sum:
  assumes "prepare_fee_resolved quote uid ft w = (Inr (), w')"
  shows "from_balance (self w') + from_prepaid (self w') + from_csaf (self w')
           = total_fee_paid (self w')
         \<and> 0 \<le> from_balance (self w') \<and> 0 \<le> from_prepaid (self w')
         \<and> 0 \<le> from_csaf (self w')"
  using assms
  by (auto simp: prepare_fee_resolved_def Let_def split: if_splits option.splits)

text \<open>
  C3. After a successful call of \<^verbatim>\<open>prepare_fee\<close>, whichever of its five overloads it is,
  the three sources add up to the total, \<open>from_balance + from_prepaid + from_csaf =
  total_fee_paid\<close>, and none of them is negative, whatever csaf, prepaid and balance the payer
  has.
\<close>

theorem prepare_fee_sum_invariant:
  assumes "prepare_fee quote uid f w = (Inr (), w')
         \<or> prepare_fee_by_id quote account_id f w = (Inr (), w')
         \<or> prepare_fee_payer_known quote f w = (Inr (), w')
         \<or> prepare_fee_resolved quote uid ft w = (Inr (), w')
         \<or> prepare_fee_resolved_payer_known quote ft w = (Inr (), w')"
  shows "from_balance (self w') + from_prepaid (self w') + from_csaf (self w')
           = total_fee_paid (self w')
         \<and> 0 \<le> from_balance (self w') \<and> 0 \<le> from_prepaid (self w')
         \<and> 0 \<le> from_csaf (self w')"
  using assms
  by (auto simp: prepare_fee_def prepare_fee_by_id_def prepare_fee_payer_known_def
      prepare_fee_resolved_payer_known_def split: option.splits
      dest!: prepare_fee_resolved_sum)

text \<open>
  Payer 3 pays a declared fee of 10 with 4 of csaf, 3 of prepaid and 3 from the balance, and
  a fee of 10 resolved beforehand with 8 from the balance and 2 of prepaid.
\<close>

theorem prepare_fee_sum_invariant_witness:
  "fst (prepare_fee half_quote 3 \<lparr>amount = 10, asset_id = 0\<rparr> (demo_world checking_state)) = Inr ()
   \<and> from_csaf (self (snd (prepare_fee half_quote 3 \<lparr>amount = 10, asset_id = 0\<rparr>
        (demo_world checking_state)))) = 4
   \<and> from_prepaid (self (snd (prepare_fee half_quote 3 \<lparr>amount = 10, asset_id = 0\<rparr>
        (demo_world checking_state)))) = 3
   \<and> from_balance (self (snd (prepare_fee half_quote 3 \<lparr>amount = 10, asset_id = 0\<rparr>
        (demo_world checking_state)))) = 3
   \<and> total_fee_paid (self (snd (prepare_fee half_quote 3 \<lparr>amount = 10, asset_id = 0\<rparr>
        (demo_world checking_state)))) = 10
   \<and> fst (prepare_fee_resolved half_quote 3 stated_fee (demo_world checking_state)) = Inr ()
   \<and> from_balance (self (snd (prepare_fee_resolved half_quote 3 stated_fee
        (demo_world checking_state))))
      + from_prepaid (self (snd (prepare_fee_resolved half_quote 3 stated_fee
        (demo_world checking_state))))
      + from_csaf (self (snd (prepare_fee_resolved half_quote 3 stated_fee
        (demo_world checking_state))))
      = total_fee_paid (self (snd (prepare_fee_resolved half_quote 3 stated_fee
        (demo_world checking_state))))"
proof -
  let ?w = "demo_world checking_state"
  have a: "fst (prepare_fee half_quote 3 \<lparr>amount = 10, asset_id = 0\<rparr> ?w) = Inr ()"
    by (simp add: demo_defs fee_defs)
  then have a': "prepare_fee half_quote 3 \<lparr>amount = 10, asset_id = 0\<rparr> ?w
      = (Inr (), snd (prepare_fee half_quote 3 \<lparr>amount = 10, asset_id = 0\<rparr> ?w))"
    by (simp add: prod_eq_iff)
  have b: "fst (prepare_fee_resolved half_quote 3 stated_fee ?w) = Inr ()"
    by (simp add: demo_defs fee_defs stated_fee_def)
  then have b': "prepare_fee_resolved half_quote 3 stated_fee ?w
      = (Inr (), snd (prepare_fee_resolved half_quote 3 stated_fee ?w))"
    by (simp add: prod_eq_iff)
  have c: "from_csaf (self (snd (prepare_fee half_quote 3 \<lparr>amount = 10, asset_id = 0\<rparr> ?w))) = 4"
    "from_prepaid (self (snd (prepare_fee half_quote 3 \<lparr>amount = 10, asset_id = 0\<rparr> ?w))) = 3"
    by (simp_all add: demo_defs fee_defs)
  from prepare_fee_sum_invariant [where quote = half_quote and uid = 3
      and f = "\<lparr>amount = 10, asset_id = 0\<rparr>" and w = ?w, OF disjI1, OF a']
    prepare_fee_sum_invariant [where quote = half_quote and uid = 3 and ft = stated_fee
      and w = ?w, OF disjI2, OF disjI2, OF disjI2, OF disjI1, OF b']
    a b c
  show ?thesis by (simp add: demo_defs fee_defs)
qed

subsection \<open>\<^verbatim>\<open>evaluate\<close> writes nothing to the ledger\<close>

lemma prepare_fee_resolved_ledger:
  "ledger (snd (prepare_fee_resolved quote uid ft w)) = ledger w"
  by (simp add: prepare_fee_resolved_def Let_def split: option.splits)

lemma prepare_fee_ledger: "ledger (snd (prepare_fee quote uid f w)) = ledger w"
  by (simp add: prepare_fee_def prepare_fee_resolved_ledger)

lemma prepare_fee_overloads_ledger:
  "ledger (snd (prepare_fee_by_id quote account_id f w)) = ledger w"
  "ledger (snd (prepare_fee_payer_known quote f w)) = ledger w"
  "ledger (snd (prepare_fee_resolved_payer_known quote ft w)) = ledger w"
  by (simp_all add: prepare_fee_by_id_def prepare_fee_payer_known_def
      prepare_fee_resolved_payer_known_def prepare_fee_ledger prepare_fee_resolved_ledger
      split: option.splits)

lemma bnd_ledger:
  assumes "\<And>w. ledger (snd (m w)) = ledger w" and "\<And>a w. ledger (snd (f a w)) = ledger w"
  shows "ledger (snd (bnd m f w)) = ledger w"
proof (cases "m w")
  case (Pair r w1)
  with assms(1) [of w] have l: "ledger w1 = ledger w" by simp
  show ?thesis
  proof (cases r)
    case (Inl e)
    with Pair l show ?thesis by (simp add: bnd_def)
  next
    case (Inr a)
    with Pair l assms(2) [of a w1] show ?thesis by (simp add: bnd_def)
  qed
qed

lemma fee_schedule_check_state: "snd (fee_schedule_check pr w) = w"
  by (simp add: fee_schedule_check_def eff_defs)

lemma evaluate_ledger:
  assumes "\<And>u fe w. ledger (snd (prepare_fee_impl E u fe w)) = ledger w"
      and "\<And>p w. ledger (snd (do_evaluate E p w)) = ledger w"
  shows "ledger (snd (evaluator_evaluate E o_v w)) = ledger w"
  unfolding evaluator_evaluate_def
  by (intro bnd_ledger assms)
     (simp_all add: get_op_def ret_def throw_def fee_schedule_check_state split: option.splits)

lemma start_evaluate_ledger:
  assumes "\<And>w. ledger (snd (evaluate_v o_v w)) = ledger w"
  shows "ledger (snd (start_evaluate evaluate_v apply_v st o_v False w)) = ledger w"
  unfolding start_evaluate_def
  by (intro bnd_ledger assms) (simp_all add: ret_def)

text \<open>
  C4, as the code has it. Every overload of \<^verbatim>\<open>prepare_fee\<close> leaves the ledger as it is and
  records the amounts in the evaluator only, and \<^verbatim>\<open>evaluate\<close> writes nothing of its own: for
  an operation kind whose \<^verbatim>\<open>do_evaluate\<close> leaves the ledger unchanged, \<^verbatim>\<open>evaluate\<close> without
  \<^verbatim>\<open>apply\<close> leaves the whole ledger (balances, exchange pools, statistics counters) as it
  was, whether it succeeds or fails.
\<close>

theorem evaluate_leaves_ledger:
  assumes "\<And>p w. ledger (snd (do_evaluate_v p w)) = ledger w"
  shows "ledger (snd (prepare_fee quote uid f w)) = ledger w
       \<and> ledger (snd (prepare_fee_by_id quote account_id f w)) = ledger w
       \<and> ledger (snd (prepare_fee_payer_known quote f w)) = ledger w
       \<and> ledger (snd (prepare_fee_resolved quote uid ft w)) = ledger w
       \<and> ledger (snd (prepare_fee_resolved_payer_known quote ft w)) = ledger w
       \<and> ledger (snd (evaluator_evaluate
            (ledger_evaluator tag quote fee_pair do_evaluate_v do_apply_v) o_v w)) = ledger w
       \<and> ledger (snd (start_evaluate
            (evaluator_evaluate (ledger_evaluator tag quote fee_pair do_evaluate_v do_apply_v))
            (evaluator_apply (ledger_evaluator tag quote fee_pair do_evaluate_v do_apply_v))
            st o_v False w)) = ledger w
       \<and> snd (op_evaluator_impl_evaluate
            (ledger_evaluator tag quote fee_pair do_evaluate_v do_apply_v)
            x st o_v (Some False) d) = d"
proof -
  let ?E = "ledger_evaluator tag quote fee_pair do_evaluate_v do_apply_v"
  have ev: "ledger (snd (evaluator_evaluate ?E o' w')) = ledger w'" for o' w'
    by (rule evaluate_ledger) (simp_all add: assms ledger_evaluator_def prepare_fee_ledger)
  have se: "ledger (snd (start_evaluate (evaluator_evaluate ?E) (evaluator_apply ?E) st o_v False w'))
           = ledger w'" for w'
    by (rule start_evaluate_ledger) (rule ev)
  show ?thesis
    by (simp add: prepare_fee_ledger prepare_fee_resolved_ledger prepare_fee_overloads_ledger
        ev se op_evaluator_impl_evaluate_def Let_def)
qed

text \<open>One evaluation that fails and one that succeeds, both without \<^verbatim>\<open>apply\<close>.\<close>

theorem evaluate_leaves_ledger_witness:
  "snd (op_evaluator_impl_evaluate plain_evaluator () checking_state csaf_fee_op (Some False)
          demo_ledger) = demo_ledger
   \<and> fst (op_evaluator_impl_evaluate plain_evaluator () checking_state csaf_fee_op (Some False)
          demo_ledger) = Inl insufficient_fee
   \<and> snd (op_evaluator_impl_evaluate plain_evaluator () checking_state native_fee_op (Some False)
          demo_ledger) = demo_ledger
   \<and> fst (op_evaluator_impl_evaluate plain_evaluator () checking_state native_fee_op (Some False)
          demo_ledger) = Inr (0, 0)"
proof -
  have frame: "ledger (snd (ret (0::int, 0::int) w)) = ledger w" for w :: "(database, unit) world"
    by (simp add: ret_def)
  have a: "snd (op_evaluator_impl_evaluate plain_evaluator () checking_state csaf_fee_op
             (Some False) demo_ledger) = demo_ledger"
    using evaluate_leaves_ledger [where do_evaluate_v = "\<lambda>_. ret (0, 0)" and tag = 0
        and quote = half_quote and fee_pair = "\<lambda>_ _. (10, 5)" and do_apply_v = "\<lambda>_. ret (0, 0)"
        and x = "()" and st = checking_state and o_v = csaf_fee_op and d = demo_ledger,
        OF frame]
    by (simp add: plain_evaluator_def)
  have b: "snd (op_evaluator_impl_evaluate plain_evaluator () checking_state native_fee_op
             (Some False) demo_ledger) = demo_ledger"
    using evaluate_leaves_ledger [where do_evaluate_v = "\<lambda>_. ret (0, 0)" and tag = 0
        and quote = half_quote and fee_pair = "\<lambda>_ _. (10, 5)" and do_apply_v = "\<lambda>_. ret (0, 0)"
        and x = "()" and st = checking_state and o_v = native_fee_op and d = demo_ledger,
        OF frame]
    by (simp add: plain_evaluator_def)
  have c: "fst (op_evaluator_impl_evaluate plain_evaluator () checking_state csaf_fee_op
             (Some False) demo_ledger) = Inl insufficient_fee"
    by (simp add: op_evaluator_impl_evaluate_def start_evaluate_def evaluator_evaluate_def
        fee_schedule_check_def eff_defs demo_defs fee_defs)
  have d: "fst (op_evaluator_impl_evaluate plain_evaluator () checking_state native_fee_op
             (Some False) demo_ledger) = Inr (0, 0)"
    by (simp add: op_evaluator_impl_evaluate_def start_evaluate_def evaluator_evaluate_def
        fee_schedule_check_def eff_defs demo_defs fee_defs)
  from a b c d show ?thesis by simp
qed

text \<open>
  C4 as it is stated fails: an operation kind whose \<^verbatim>\<open>do_evaluate\<close> takes one unit off the
  payer's balance leaves 99 where 100 were, with \<^verbatim>\<open>apply = false\<close>.
\<close>

theorem evaluate_writes_in_do_evaluate:
  "fst (op_evaluator_impl_evaluate writing_evaluator () checking_state native_fee_op (Some False)
          demo_ledger) = Inr (0, 0)
   \<and> balances demo_ledger (1, 0) = 100
   \<and> balances (snd (op_evaluator_impl_evaluate writing_evaluator () checking_state native_fee_op
          (Some False) demo_ledger)) (1, 0) = 99"
  by (simp add: op_evaluator_impl_evaluate_def start_evaluate_def evaluator_evaluate_def
      fee_schedule_check_def eff_defs writing_evaluator_def demo_defs fee_defs)

subsection \<open>The default of the \<^verbatim>\<open>apply\<close> argument\<close>

text \<open>
  C5, as the code has it. A call of \<^verbatim>\<open>op_evaluator_impl<T>::evaluate\<close> that leaves the third
  argument out is the call with \<^verbatim>\<open>apply = true\<close>: it validates and then applies.
\<close>

theorem omitted_apply_defaults_to_true:
  "op_evaluator_impl_evaluate T x eval_state op None d
     = op_evaluator_impl_evaluate T x eval_state op (Some True) d"
  by (simp add: op_evaluator_impl_evaluate_def)

text \<open>
  C5 as it is stated fails: without the argument the fee of 10 is taken off the balance of
  payer 1 and added to its pending fees.
\<close>

theorem omitted_apply_mutates_ledger:
  "fst (op_evaluator_impl_evaluate plain_evaluator () checking_state native_fee_op None demo_ledger)
     = Inr (0, 0)
   \<and> balances demo_ledger (1, 0) = 100
   \<and> balances (snd (op_evaluator_impl_evaluate plain_evaluator () checking_state native_fee_op
        None demo_ledger)) (1, 0) = 90
   \<and> account_statistics (snd (op_evaluator_impl_evaluate plain_evaluator () checking_state
        native_fee_op None demo_ledger)) 1 = Some \<lparr>prepaid = 0, csaf = 0, pending_fees = 10\<rparr>"
  by (simp add: op_evaluator_impl_evaluate_def start_evaluate_def evaluator_evaluate_def
      evaluator_apply_def fee_schedule_check_def eff_defs demo_defs fee_defs)

subsection \<open>A failed \<^verbatim>\<open>evaluate\<close> ends \<^verbatim>\<open>start_evaluate\<close>\<close>

text \<open>
  C8. When \<^verbatim>\<open>evaluate\<close> fails, with whatever error, \<^verbatim>\<open>start_evaluate\<close> fails with that error in
  the state \<^verbatim>\<open>evaluate\<close> has left, whatever the \<^verbatim>\<open>apply\<close> flag is and whatever \<^verbatim>\<open>apply\<close> would
  do: \<^verbatim>\<open>apply\<close> is not run.
\<close>

theorem failed_evaluate_skips_apply:
  assumes "evaluate_v o_v (w\<lparr>self := (self w)\<lparr>trx_state := Some st\<rparr>\<rparr>) = (Inl e, w')"
  shows "start_evaluate evaluate_v apply_v st o_v apply_flag w = (Inl e, w')"
  using assms by (simp add: start_evaluate_def bnd_def)

text \<open>The csaf-funded fee fails the real-fee floor; with \<^verbatim>\<open>apply = true\<close> the ledger is untouched.\<close>

theorem failed_evaluate_skips_apply_witness:
  "op_evaluator_impl_evaluate plain_evaluator () checking_state csaf_fee_op (Some True) demo_ledger
     = (Inl insufficient_fee, demo_ledger)"
  using failed_evaluate_skips_apply [where evaluate_v = "evaluator_evaluate plain_evaluator"
      and apply_v = "evaluator_apply plain_evaluator" and o_v = csaf_fee_op
      and st = checking_state and apply_flag = True
      and w = "\<lparr>ledger = demo_ledger, self = fresh_evaluator ()\<rparr>"
      and e = insufficient_fee
      and w' = "snd (evaluator_evaluate plain_evaluator csaf_fee_op (demo_world checking_state))"]
  by (simp add: op_evaluator_impl_evaluate_def evaluator_evaluate_def
        fee_schedule_check_def eff_defs demo_defs fee_defs)

subsection \<open>\<^verbatim>\<open>prepare_fee\<close> under the skip flag\<close>

text \<open>
  C9. \<^verbatim>\<open>evaluate\<close> calls \<^verbatim>\<open>prepare_fee\<close> first and whatever the skip flag is: if \<^verbatim>\<open>prepare_fee\<close>
  fails, \<^verbatim>\<open>evaluate\<close> fails in the same way. If it succeeds and the skip flag is set,
  \<^verbatim>\<open>evaluate\<close> goes straight on to \<^verbatim>\<open>do_evaluate\<close>, with neither of the two fee assertions.
  If it succeeds and the flag is clear, the two assertions are in force: \<^verbatim>\<open>evaluate\<close> throws
  \<^verbatim>\<open>insufficient_fee\<close> when \<open>total_fee_paid\<close> or \<open>from_balance + from_prepaid\<close> is below the
  required fee pair, and goes on to \<^verbatim>\<open>do_evaluate\<close> when both bounds are met.
\<close>

theorem evaluate_prepares_fee_first:
  assumes "which o_v = operation_type E"
  shows "(prepare_fee_impl E (fee_payer_uid o_v) (fee o_v) w = (Inl e, w1)
            \<longrightarrow> evaluator_evaluate E o_v w = (Inl e, w1))
       \<and> (prepare_fee_impl E (fee_payer_uid o_v) (fee o_v) w = (Inr (), w1)
            \<and> trx_state (self w1) = Some st \<and> skip_fee_schedule_check st
            \<longrightarrow> evaluator_evaluate E o_v w = do_evaluate E o_v w1)
       \<and> (prepare_fee_impl E (fee_payer_uid o_v) (fee o_v) w = (Inr (), w1)
            \<and> trx_state (self w1) = Some st \<and> \<not> skip_fee_schedule_check st
            \<longrightarrow> (total_fee_paid (self w1) < fst (calculate_fee_pair_for_operation E o_v w1)
                   \<longrightarrow> evaluator_evaluate E o_v w = (Inl insufficient_fee, w1))
              \<and> (from_balance (self w1) + from_prepaid (self w1)
                     < snd (calculate_fee_pair_for_operation E o_v w1)
                   \<longrightarrow> evaluator_evaluate E o_v w = (Inl insufficient_fee, w1))
              \<and> (fst (calculate_fee_pair_for_operation E o_v w1) \<le> total_fee_paid (self w1)
                  \<and> snd (calculate_fee_pair_for_operation E o_v w1)
                     \<le> from_balance (self w1) + from_prepaid (self w1)
                   \<longrightarrow> evaluator_evaluate E o_v w = do_evaluate E o_v w1))"
  using assms by (simp add: evaluator_evaluate_def fee_schedule_check_def eff_defs)

text \<open>
  With the skip flag set, payer 2 cannot fund a fee of 60 and the evaluation fails; payer 1
  declares 3 where 10 are required and the evaluation succeeds. With the flag clear the same
  fee of 3 is refused.
\<close>

theorem evaluate_prepares_fee_first_witness:
  "fst (evaluator_evaluate plain_evaluator poor_payer_op (demo_world skipping_state))
     = Inl insufficient_funds
   \<and> fst (evaluator_evaluate plain_evaluator low_fee_op (demo_world skipping_state)) = Inr (0, 0)
   \<and> total_fee_paid (self (snd (evaluator_evaluate plain_evaluator low_fee_op
        (demo_world skipping_state)))) = 3
   \<and> fst (evaluator_evaluate plain_evaluator low_fee_op (demo_world checking_state))
     = Inl insufficient_fee"
  using evaluate_prepares_fee_first [of poor_payer_op plain_evaluator
      "demo_world skipping_state" insufficient_funds "demo_world skipping_state" skipping_state]
    evaluate_prepares_fee_first [of low_fee_op plain_evaluator
      "demo_world skipping_state" insufficient_funds
      "snd (prepare_fee half_quote 1 \<lparr>amount = 3, asset_id = 0\<rparr> (demo_world skipping_state))"
      skipping_state]
    evaluate_prepares_fee_first [of low_fee_op plain_evaluator
      "demo_world checking_state" insufficient_funds
      "snd (prepare_fee half_quote 1 \<lparr>amount = 3, asset_id = 0\<rparr> (demo_world checking_state))"
      checking_state]
  by (simp add: poor_payer_op_def low_fee_op_def skipping_state_def demo_defs fee_defs ret_def)

subsection \<open>The exchange pool over \<^verbatim>\<open>evaluate\<close> and \<^verbatim>\<open>apply\<close>\<close>













subsection \<open>Relative object references\<close>

text \<open>
  C10. \<^verbatim>\<open>get_relative_id\<close> returns a reference that is not relative as it is; it resolves a
  relative reference to the object created under that index earlier in the transaction; and
  it fails when the index is not below the number of objects created so far.
\<close>

theorem get_relative_id_contract:
  assumes "trx_state (self w) = Some st"
  shows "(\<not> is_relative r \<longrightarrow> get_relative_id r w = (Inr r, w))
       \<and> (is_relative r \<and> instance_no r < length (created_objects st)
            \<longrightarrow> get_relative_id r w = (Inr (created_objects st ! instance_no r), w)
               \<and> created_objects st ! instance_no r \<in> set (created_objects st))
       \<and> (is_relative r \<and> length (created_objects st) \<le> instance_no r
            \<longrightarrow> get_relative_id r w = (Inl object_resolution_failure, w))"
  using assms by (simp add: get_relative_id_def)

text \<open>
  With three objects created, the relative reference 0 is the first of them, and the relative
  reference 3 is out of range.
\<close>

theorem get_relative_id_contract_witness:
  "get_relative_id \<lparr>is_relative = True, instance_no = 0\<rparr> (demo_world three_created_state)
     = (Inr \<lparr>is_relative = False, instance_no = 41\<rparr>, demo_world three_created_state)
   \<and> get_relative_id \<lparr>is_relative = False, instance_no = 9\<rparr> (demo_world three_created_state)
     = (Inr \<lparr>is_relative = False, instance_no = 9\<rparr>, demo_world three_created_state)
   \<and> get_relative_id \<lparr>is_relative = True, instance_no = 3\<rparr> (demo_world three_created_state)
     = (Inl object_resolution_failure, demo_world three_created_state)"
  using get_relative_id_contract [of "demo_world three_created_state" three_created_state
      "\<lparr>is_relative = True, instance_no = 0\<rparr>"]
    get_relative_id_contract [of "demo_world three_created_state" three_created_state
      "\<lparr>is_relative = False, instance_no = 9\<rparr>"]
    get_relative_id_contract [of "demo_world three_created_state" three_created_state
      "\<lparr>is_relative = True, instance_no = 3\<rparr>"]
  by (simp add: demo_world_def three_created_state_def)

end
